theory Spec2Isabelle
  imports Complex_Main "HOL-Library.AList"
begin

section \<open>Numbers\<close>

text \<open>
  Driver readings, shock magnitudes and the magnitude modifier are Python floats; they
  are modelled as reals (binary rounding error and overflow are not modelled).

  The forecast values that reach \<open>format_price_change\<close> are numpy float64 scalars
  (\<open>Series.iloc[i]\<close>).  Dividing such a scalar by zero raises nothing: it yields an
  infinity or NaN (with a warning on stderr).  The three special values are therefore part
  of the model; a finite value is a real.  The sign of a zero is not modelled: a zero
  divisor is treated as \<open>+0.0\<close>.
\<close>

datatype npfloat = Fin real | PInf | NInf | NaN


text \<open>The infinity of the given sign (\<open>True\<close> is positive).\<close>

definition inf_of :: "bool \<Rightarrow> npfloat" where
  "inf_of positive = (if positive then PInf else NInf)"

text \<open>\<open>a - b\<close> on float64.\<close>

fun fsub :: "npfloat \<Rightarrow> npfloat \<Rightarrow> npfloat" where
  "fsub NaN b = NaN"
| "fsub a NaN = NaN"
| "fsub (Fin a) (Fin b) = Fin (a - b)"
| "fsub (Fin a) PInf = NInf"
| "fsub (Fin a) NInf = PInf"
| "fsub PInf PInf = NaN"
| "fsub NInf NInf = NaN"
| "fsub PInf b = PInf"
| "fsub NInf b = NInf"

text \<open>\<open>a / b\<close> on float64: no exception, whatever the divisor.\<close>

fun fdiv :: "npfloat \<Rightarrow> npfloat \<Rightarrow> npfloat" where
  "fdiv NaN b = NaN"
| "fdiv a NaN = NaN"
| "fdiv (Fin a) (Fin b) =
     (if b \<noteq> 0 then Fin (a / b)
      else if a = 0 then NaN
      else inf_of (0 < a))"
| "fdiv (Fin a) b = Fin 0"
| "fdiv PInf (Fin b) = inf_of (0 \<le> b)"
| "fdiv NInf (Fin b) = inf_of (b < 0)"
| "fdiv a b = NaN"

text \<open>\<open>a * b\<close> on float64.\<close>

fun fmul :: "npfloat \<Rightarrow> npfloat \<Rightarrow> npfloat" where
  "fmul NaN b = NaN"
| "fmul a NaN = NaN"
| "fmul (Fin a) (Fin b) = Fin (a * b)"
| "fmul (Fin a) PInf = (if a = 0 then NaN else inf_of (0 < a))"
| "fmul (Fin a) NInf = (if a = 0 then NaN else inf_of (a < 0))"
| "fmul PInf (Fin b) = (if b = 0 then NaN else inf_of (0 < b))"
| "fmul NInf (Fin b) = (if b = 0 then NaN else inf_of (b < 0))"
| "fmul PInf PInf = PInf"
| "fmul NInf NInf = PInf"
| "fmul a b = NInf"

text \<open>\<open>a > 0\<close> on float64: every comparison with NaN is false.\<close>

fun fpos :: "npfloat \<Rightarrow> bool" where
  "fpos (Fin a) = (0 < a)"
| "fpos PInf = True"
| "fpos NInf = False"
| "fpos NaN = False"

text \<open>Rounding to the nearest integer, a tie going to the even neighbour.\<close>

definition rint :: "real \<Rightarrow> int" where
  "rint x =
     (let f = \<lfloor>x\<rfloor>; d = x - of_int f
      in if d < 1 / 2 then f
         else if 1 / 2 < d then f + 1
         else if even f then f else f + 1)"

text \<open>\<open>round(x, 2)\<close> on a real: scale by 100, round, scale back.\<close>

definition round2 :: "real \<Rightarrow> real" where
  "round2 x = of_int (rint (x * 100)) / 100"

text \<open>\<open>round(x, 2)\<close> on float64: the special values round to themselves.\<close>

fun fround2 :: "npfloat \<Rightarrow> npfloat" where
  "fround2 (Fin x) = Fin (round2 x)"
| "fround2 PInf = PInf"
| "fround2 NInf = NInf"
| "fround2 NaN = NaN"

section \<open>Strings\<close>

text \<open>
  The two chart emoji of \<open>format_price_change\<close> as their UTF-8 bytes:
  U+1F4C8 (chart increasing) and U+1F4C9 (chart decreasing).
\<close>

definition chart_up :: string where
  "chart_up = [CHR 0xF0, CHR 0x9F, CHR 0x93, CHR 0x88]"

definition chart_down :: string where
  "chart_down = [CHR 0xF0, CHR 0x9F, CHR 0x93, CHR 0x89]"

text \<open>The decimal digits of a natural number.\<close>

fun digits :: "nat \<Rightarrow> string" where
  "digits n =
     (if n < 10 then [char_of (48 + n)]
      else digits (n div 10) @ [char_of (48 + n mod 10)])"

text \<open>
  The format specification \<open>.pf\<close> (\<open>p \<ge> 1\<close> fractional digits) of an f-string:
  the value rounded to \<open>p\<close> places, ties to even, a minus sign kept on a negative value
  that rounds to zero, and \<open>inf\<close>, \<open>-inf\<close>, \<open>nan\<close> for the special values.
\<close>

definition fmt_fin :: "nat \<Rightarrow> real \<Rightarrow> string" where
  "fmt_fin p x =
     (let q = nat (rint (\<bar>x\<bar> * 10 ^ p));
          frac = digits (q mod 10 ^ p)
      in (if x < 0 then ''-'' else [])
         @ digits (q div 10 ^ p) @ ''.''
         @ replicate (p - length frac) (CHR ''0'') @ frac)"

fun fmt_f :: "nat \<Rightarrow> npfloat \<Rightarrow> string" where
  "fmt_f p (Fin x) = fmt_fin p x"
| "fmt_f p PInf = ''inf''"
| "fmt_f p NInf = ''-inf''"
| "fmt_f p NaN = ''nan''"

text \<open>\<open>repr\<close> of a string without quotes or escapes, and of a list of such strings.\<close>

definition repr_str :: "string \<Rightarrow> string" where
  "repr_str s = [CHR 0x27] @ s @ [CHR 0x27]"

fun join :: "string \<Rightarrow> string list \<Rightarrow> string" where
  "join sep [] = []"
| "join sep [x] = x"
| "join sep (x # y # ys) = x @ sep @ join sep (y # ys)"

definition repr_list :: "string list \<Rightarrow> string" where
  "repr_list xs = ''['' @ join '', '' (map repr_str xs) @ '']''"

section \<open>Impact formatter (utils.py)\<close>

text \<open>
  The dictionary returned by \<open>format_price_change\<close>; the fields are its keys
  \<open>baseline\<close>, \<open>shocked\<close>, \<open>difference\<close>, \<open>pct_change\<close>, \<open>arrow\<close>,
  \<open>formatted\<close>.
\<close>

record impact =
  i_baseline :: npfloat
  i_shocked :: npfloat
  i_difference :: npfloat
  i_pct_change :: npfloat
  i_arrow :: string
  i_formatted :: string

definition format_price_change :: "npfloat \<Rightarrow> npfloat \<Rightarrow> impact" where
  "format_price_change baseline shocked =
     (let diff = fsub shocked baseline;
          pct = fmul (fdiv diff baseline) (Fin 100);
          arrow = (if fpos diff then chart_up else chart_down);
          sign = (if fpos diff then ''+'' else [])
      in \<lparr> i_baseline = fround2 baseline,
           i_shocked = fround2 shocked,
           i_difference = fround2 diff,
           i_pct_change = fround2 pct,
           i_arrow = arrow,
           i_formatted = arrow @ '' '' @ sign @ ''$'' @ fmt_f 2 diff
                         @ ''/barrel ('' @ sign @ fmt_f 1 pct @ ''%)'' \<rparr>)"

section \<open>Dictionaries, indexing and exceptions\<close>

text \<open>
  A Python dictionary with string keys is an association list in insertion order; a key
  occurs once.  \<open>AList.update\<close> is the assignment \<open>d[k] = v\<close>: it replaces the
  value of a key that is present and appends a new key at the end.
\<close>

datatype error =
    ValueError string
  | KeyError string
  | IndexError string
  | OtherError string

text \<open>\<open>d[k]\<close> raises \<open>KeyError\<close> on a missing key; \<open>d.get(k, default)\<close> does not.\<close>

definition dict_item :: "(string \<times> 'a) list \<Rightarrow> string \<Rightarrow> error + 'a" where
  "dict_item d k = (case map_of d k of Some v \<Rightarrow> Inr v | None \<Rightarrow> Inl (KeyError k))"

definition dict_get :: "(string \<times> 'a) list \<Rightarrow> string \<Rightarrow> 'a \<Rightarrow> 'a" where
  "dict_get d k dflt = (case map_of d k of Some v \<Rightarrow> v | None \<Rightarrow> dflt)"

text \<open>
  \<open>series.iloc[i]\<close>: position \<open>i\<close> from the front, or from the back when \<open>i\<close> is
  negative; a position outside the series raises \<open>IndexError\<close>.
\<close>

definition iloc :: "'a list \<Rightarrow> int \<Rightarrow> error + 'a" where
  "iloc series i =
     (if 0 \<le> i \<and> i < int (length series) then Inr (series ! nat i)
      else if i < 0 \<and> - i \<le> int (length series)
        then Inr (series ! nat (int (length series) + i))
      else Inl (IndexError ''single positional indexer is out-of-bounds''))"

section \<open>Scenario catalog (scenario_engine.py)\<close>

type_synonym shocks = "(string \<times> real) list"

text \<open>One catalog entry; the fields are its keys \<open>name\<close>, \<open>description\<close>, \<open>shocks\<close>.\<close>

record scenario =
  sc_name :: string
  sc_description :: string
  sc_shocks :: shocks

type_synonym catalog = "(string \<times> scenario) list"

text \<open>The literal that the module global \<open>SCENARIOS\<close> is bound to when the module loads.\<close>

definition SCENARIOS_init :: catalog where
  "SCENARIOS_init =
     [(''opec_cut'',
       \<lparr> sc_name = ''OPEC Production Cut (10%)'',
         sc_description = ''OPEC announces a coordinated 10% production cut. ''
                        @ ''Supply tightens, inventories draw down, ''
                        @ ''risk sentiment improves.'',
         sc_shocks = [(''inventory_pct'', - 0.05),
                      (''vix_diff'', - 2.0),
                      (''dollar_return'', - 0.002),
                      (''indpro_return'', 0.0),
                      (''fed_funds_diff'', 0.0)] \<rparr>),
      (''global_recession'',
       \<lparr> sc_name = ''Global Recession'',
         sc_description = ''A global recession takes hold. Industrial activity ''
                        @ ''contracts sharply, demand for oil collapses, ''
                        @ ''financial markets enter panic mode.'',
         sc_shocks = [(''indpro_return'', - 0.02),
                      (''vix_diff'', 8.0),
                      (''dollar_return'', 0.005),
                      (''inventory_pct'', 0.03),
                      (''fed_funds_diff'', 0.0)] \<rparr>),
      (''rate_hike'',
       \<lparr> sc_name = ''Aggressive Fed Rate Hike (+75bps)'',
         sc_description = ''The Federal Reserve raises rates aggressively ''
                        @ ''by 75 basis points. Economic growth slows, ''
                        @ ''dollar strengthens, oil demand weakens.'',
         sc_shocks = [(''dollar_return'', 0.008),
                      (''vix_diff'', 3.0),
                      (''indpro_return'', - 0.005),
                      (''fed_funds_diff'', 0.75),
                      (''inventory_pct'', 0.0)] \<rparr>),
      (''geopolitical_tension'',
       \<lparr> sc_name = ''Major Geopolitical Tension (Supply Disruption)'',
         sc_description = ''Significant geopolitical conflict disrupts oil ''
                        @ ''supply routes. Markets panic, safe havens rally, ''
                        @ ''supply uncertainty drives prices up.'',
         sc_shocks = [(''inventory_pct'', - 0.08),
                      (''vix_diff'', 12.0),
                      (''dollar_return'', 0.003),
                      (''indpro_return'', 0.0),
                      (''fed_funds_diff'', 0.0)] \<rparr>),
      (''demand_boom'',
       \<lparr> sc_name = ''Global Demand Boom (China Reopening)'',
         sc_description = ''A major emerging market (e.g. China) reopens ''
                        @ ''strongly after a period of restriction. ''
                        @ ''Industrial demand surges globally.'',
         sc_shocks = [(''indpro_return'', 0.015),
                      (''inventory_pct'', - 0.04),
                      (''vix_diff'', - 3.0),
                      (''dollar_return'', - 0.003),
                      (''fed_funds_diff'', 0.0)] \<rparr>)]"

section \<open>Engine state and effects\<close>

text \<open>
  \<open>engine.latest\<close>, the dictionary that \<open>get_latest_values\<close> fills once at start-up,
  always with the same twelve keys.
\<close>

record latest_values =
  brent_price :: real
  inventories :: real
  industrial_prod :: real
  dollar_index :: real
  fed_funds :: real
  vix :: real
  brent_return :: real
  dollar_return :: real
  indpro_return :: real
  inventory_pct :: real
  fed_funds_diff :: real
  vix_diff :: real

text \<open>The exogenous matrix: one dictionary of driver values per forecast week.\<close>

type_synonym exog = "shocks list"

text \<open>
  What \<open>model.get_forecast\<close> returns: the point forecasts (\<open>predicted_mean\<close>) and
  the bounds of \<open>conf_int(alpha=0.05)\<close>.  The fitted model is not part of the
  repository; it is a parameter \<open>model\<close> of the functions that call it, free to
  return any forecast or to raise.
\<close>

record forecast =
  predicted_mean :: "npfloat list"
  conf_int :: "(npfloat \<times> npfloat) list"

type_synonym forecast_model = "int \<Rightarrow> exog \<Rightarrow> error + forecast"

text \<open>
  The effects of a run, in the order they happen: a matrix is built, the model is asked
  for a forecast, the shocks stored under a catalog key are assigned.
\<close>

datatype event =
    BuildExog shocks int
  | GetForecast int exog
  | SetShocks string shocks

text \<open>
  The shared state: the module global \<open>SCENARIOS\<close>, the engine's \<open>latest\<close>, and
  the effects so far.  Printing is not modelled.
\<close>

record world =
  SCENARIOS :: catalog
  latest :: latest_values
  trace :: "event list"

text \<open>
  A statement sequence runs on the world and ends with a value or with an exception; the
  world changes made before an exception stay.
\<close>

type_synonym 'a action = "world \<Rightarrow> (error + 'a) \<times> world"

definition ret :: "'a \<Rightarrow> 'a action" where
  "ret x w = (Inr x, w)"

definition throw :: "error \<Rightarrow> 'a action" where
  "throw e w = (Inl e, w)"

definition lift :: "error + 'a \<Rightarrow> 'a action" where
  "lift r w = (r, w)"

definition andthen :: "'a action \<Rightarrow> ('a \<Rightarrow> 'b action) \<Rightarrow> 'b action" where
  "andthen m f w =
     (case m w of
        (Inl e, w') \<Rightarrow> (Inl e, w')
      | (Inr x, w') \<Rightarrow> f x w')"

definition get_world :: "world action" where
  "get_world w = (Inr w, w)"

definition emit :: "event \<Rightarrow> unit action" where
  "emit ev w = (Inr (), w\<lparr> trace := trace w @ [ev] \<rparr>)"

section \<open>Scenario engine (scenario_engine.py)\<close>

definition exog_cols :: "string list" where
  "exog_cols =
     [''dollar_return'', ''indpro_return'', ''inventory_pct'', ''fed_funds_diff'',
      ''vix_diff'']"

text \<open>
  The loop of \<open>_build_exog_matrix\<close> over the remaining columns:
  \<open>shocked[col] = base[col] + shocks.get(col, 0.0)\<close>.
\<close>

fun apply_shocks :: "shocks \<Rightarrow> shocks \<Rightarrow> string list \<Rightarrow> shocks \<Rightarrow> error + shocks" where
  "apply_shocks base shocks [] shocked = Inr shocked"
| "apply_shocks base shocks (col # cols) shocked =
     (case dict_item base col of
        Inl e \<Rightarrow> Inl e
      | Inr v \<Rightarrow>
          apply_shocks base shocks cols
            (AList.update col (v + dict_get shocks col 0.0) shocked))"

text \<open>
  \<open>[shocked] * forecast_weeks\<close> is the empty list when \<open>forecast_weeks\<close> is zero or
  negative.  The data frame keeps the rows in order, its columns are the keys of
  \<open>shocked\<close> in the order of \<open>exog_cols\<close>.
\<close>

definition build_exog_matrix :: "shocks \<Rightarrow> int \<Rightarrow> exog action" where
  "build_exog_matrix shocks forecast_weeks =
     andthen (emit (BuildExog shocks forecast_weeks)) (\<lambda>_.
     andthen get_world (\<lambda>w.
     let base = [(''dollar_return'', dollar_return (latest w)),
                 (''indpro_return'', indpro_return (latest w)),
                 (''inventory_pct'', inventory_pct (latest w)),
                 (''fed_funds_diff'', fed_funds_diff (latest w)),
                 (''vix_diff'', vix_diff (latest w))]
     in andthen (lift (apply_shocks base shocks exog_cols [])) (\<lambda>shocked.
        ret (replicate (nat forecast_weeks) shocked))))"

text \<open>The call \<open>self.model.get_forecast(steps=..., exog=...)\<close>.\<close>

definition get_forecast :: "forecast_model \<Rightarrow> int \<Rightarrow> exog \<Rightarrow> forecast action" where
  "get_forecast model steps ex =
     andthen (emit (GetForecast steps ex)) (\<lambda>_. lift (model steps ex))"

text \<open>The dictionary returned by \<open>run_baseline\<close>.\<close>

record baseline_result =
  b_type :: string
  b_forecast_mean :: "npfloat list"
  b_conf_int :: "(npfloat \<times> npfloat) list"
  b_weeks :: int
  b_current_price :: real

definition run_baseline :: "forecast_model \<Rightarrow> int \<Rightarrow> baseline_result action" where
  "run_baseline model forecast_weeks =
     (let zero_shocks = map (\<lambda>col. (col, 0.0)) exog_cols
      in andthen (build_exog_matrix zero_shocks forecast_weeks) (\<lambda>ex.
         andthen (get_forecast model forecast_weeks ex) (\<lambda>fc.
         andthen get_world (\<lambda>w.
         ret \<lparr> b_type = ''baseline'',
               b_forecast_mean = predicted_mean fc,
               b_conf_int = conf_int fc,
               b_weeks = forecast_weeks,
               b_current_price = brent_price (latest w) \<rparr>))))"

text \<open>
  The dictionary returned by \<open>run_scenario\<close>; the fields are its keys
  (\<open>r_shocks\<close> is \<open>shocks\<close>, \<open>r_weeks\<close> is \<open>weeks\<close>).
\<close>

record scenario_result =
  r_scenario_key :: string
  r_scenario_name :: string
  r_scenario_desc :: string
  r_shocks :: shocks
  r_current_price :: real
  r_baseline_forecast :: "npfloat list"
  r_shocked_forecast :: "npfloat list"
  r_shocked_conf_int :: "(npfloat \<times> npfloat) list"
  r_impact_week1 :: impact
  r_impact_week12 :: impact
  r_weeks :: int

text \<open>The message of the \<open>ValueError\<close> that \<open>run_scenario\<close> raises.\<close>

definition unknown_scenario_msg :: "string \<Rightarrow> string list \<Rightarrow> string" where
  "unknown_scenario_msg scenario_key available =
     ''Unknown scenario '' @ [CHR 0x27] @ scenario_key @ [CHR 0x27] @ ''. ''
     @ ''Available: '' @ repr_list available"

definition run_scenario :: "forecast_model \<Rightarrow> string \<Rightarrow> int \<Rightarrow> scenario_result action" where
  "run_scenario model scenario_key forecast_weeks =
     andthen get_world (\<lambda>w.
     if scenario_key \<notin> set (map fst (SCENARIOS w)) then
       (let available = map fst (SCENARIOS w)
        in throw (ValueError (unknown_scenario_msg scenario_key available)))
     else
       andthen (lift (dict_item (SCENARIOS w) scenario_key)) (\<lambda>scenario.
       let shocks = sc_shocks scenario
       in andthen (run_baseline model forecast_weeks) (\<lambda>baseline_result.
          let baseline_forecast = b_forecast_mean baseline_result
          in andthen (build_exog_matrix shocks forecast_weeks) (\<lambda>shocked_exog.
             andthen (get_forecast model forecast_weeks shocked_exog) (\<lambda>shocked_forecast_obj.
             let shocked_forecast = predicted_mean shocked_forecast_obj;
                 shocked_conf_int = conf_int shocked_forecast_obj
             in andthen (lift (iloc baseline_forecast (- 1))) (\<lambda>baseline_end.
                andthen (lift (iloc shocked_forecast (- 1))) (\<lambda>shocked_end.
                let impact = format_price_change baseline_end shocked_end
                in andthen (lift (iloc baseline_forecast 0)) (\<lambda>baseline_w1.
                   andthen (lift (iloc shocked_forecast 0)) (\<lambda>shocked_w1.
                   let impact_w1 = format_price_change baseline_w1 shocked_w1
                   in andthen get_world (\<lambda>w'.
                      ret \<lparr> r_scenario_key = scenario_key,
                            r_scenario_name = sc_name scenario,
                            r_scenario_desc = sc_description scenario,
                            r_shocks = shocks,
                            r_current_price = brent_price (latest w'),
                            r_baseline_forecast = baseline_forecast,
                            r_shocked_forecast = shocked_forecast,
                            r_shocked_conf_int = shocked_conf_int,
                            r_impact_week1 = impact_w1,
                            r_impact_week12 = impact,
                            r_weeks = forecast_weeks \<rparr>))))))))))"

section \<open>Callers that scale the shocks (app.py, test.py)\<close>

text \<open>
  What the callers read of the dictionary that \<open>parse_user_query\<close> returns.  The keys
  \<open>magnitude_modifier\<close> and \<open>forecast_weeks\<close> may be absent (\<open>parsed.get\<close>).
\<close>

record parsed_query =
  p_scenario_key :: string
  p_magnitude_modifier :: "real option"
  p_forecast_weeks :: "int option"

text \<open>The read \<open>SCENARIOS[scenario_key]["shocks"]\<close>.\<close>

definition get_shocks :: "string \<Rightarrow> shocks action" where
  "get_shocks scenario_key =
     andthen get_world (\<lambda>w.
     andthen (lift (dict_item (SCENARIOS w) scenario_key)) (\<lambda>scenario.
     ret (sc_shocks scenario)))"

text \<open>The assignment \<open>SCENARIOS[scenario_key]["shocks"] = new_shocks\<close>.\<close>

definition set_shocks :: "string \<Rightarrow> shocks \<Rightarrow> unit action" where
  "set_shocks scenario_key new_shocks =
     andthen get_world (\<lambda>w.
     andthen (lift (dict_item (SCENARIOS w) scenario_key)) (\<lambda>scenario.
     andthen (emit (SetShocks scenario_key new_shocks)) (\<lambda>_.
     (\<lambda>w'. (Inr (),
        w'\<lparr> SCENARIOS :=
              AList.update scenario_key (scenario\<lparr> sc_shocks := new_shocks \<rparr>)
                (SCENARIOS w') \<rparr>)))))"

text \<open>
  app.py, step 2: the comprehension
  \<open>{k: v * modifier for k, v in SCENARIOS[scenario_key]["shocks"].items()}\<close>.
\<close>

definition modified_shocks_of :: "shocks \<Rightarrow> real \<Rightarrow> shocks" where
  "modified_shocks_of stored modifier = map (\<lambda>(k, v). (k, v * modifier)) stored"

text \<open>
  The body of the \<open>try\<close> of \<open>run_simulation\<close>.  Step 1, the parser, is outside the
  repository's arithmetic: its outcome is the parameter \<open>parse_outcome\<close>.  Steps 4 to 6
  (the two explanation calls and the assembly of the response) read \<open>result\<close>,
  \<open>parsed\<close> and \<open>modified_shocks\<close> only; they are the parameter \<open>finish\<close>.
  \<open>request_forecast_weeks\<close> is \<open>request.forecast_weeks\<close>.  The modifier and the
  horizons are taken to be numbers, as the parser's prompt asks for.
\<close>

definition run_simulation_try ::
  "forecast_model \<Rightarrow> (error + parsed_query) \<Rightarrow> int
     \<Rightarrow> (scenario_result \<Rightarrow> parsed_query \<Rightarrow> shocks \<Rightarrow> error + 'r) \<Rightarrow> 'r action" where
  "run_simulation_try model parse_outcome request_forecast_weeks finish =
     andthen (lift parse_outcome) (\<lambda>parsed.
     let scenario_key = p_scenario_key parsed;
         modifier = (case p_magnitude_modifier parsed of Some m \<Rightarrow> m | None \<Rightarrow> 1.0);
         weeks = (case p_forecast_weeks parsed of Some n \<Rightarrow> n
                  | None \<Rightarrow> request_forecast_weeks)
     in andthen (get_shocks scenario_key) (\<lambda>stored.
        let modified_shocks = modified_shocks_of stored modifier
        in andthen (get_shocks scenario_key) (\<lambda>original_shocks.
           andthen (set_shocks scenario_key modified_shocks) (\<lambda>_.
           andthen (run_scenario model scenario_key weeks) (\<lambda>result.
           andthen (set_shocks scenario_key original_shocks) (\<lambda>_.
           lift (finish result parsed modified_shocks)))))))"

datatype http_exception = HTTPException int string

text \<open>\<open>str(e)\<close>; for a \<open>KeyError\<close> it is the \<open>repr\<close> of the key.\<close>

fun str_of_error :: "error \<Rightarrow> string" where
  "str_of_error (ValueError m) = m"
| "str_of_error (KeyError k) = repr_str k"
| "str_of_error (IndexError m) = m"
| "str_of_error (OtherError m) = m"

fun status_of_error :: "error \<Rightarrow> int" where
  "status_of_error (ValueError m) = 400"
| "status_of_error e = 500"

text \<open>\<open>run_simulation\<close>: the \<open>try\<close> with its two handlers.\<close>

definition run_simulation ::
  "forecast_model \<Rightarrow> (error + parsed_query) \<Rightarrow> int
     \<Rightarrow> (scenario_result \<Rightarrow> parsed_query \<Rightarrow> shocks \<Rightarrow> error + 'r)
     \<Rightarrow> world \<Rightarrow> (http_exception + 'r) \<times> world" where
  "run_simulation model parse_outcome request_forecast_weeks finish w =
     (case run_simulation_try model parse_outcome request_forecast_weeks finish w of
        (Inr response, w') \<Rightarrow> (Inr response, w')
      | (Inl e, w') \<Rightarrow> (Inl (HTTPException (status_of_error e) (str_of_error e)), w'))"

text \<open>
  test.py: the loop \<open>for var in d: d[var] *= modifier\<close> on the shocks \<open>d\<close> of the
  deep copy, over the keys still to visit.
\<close>

fun scale_in_place :: "string list \<Rightarrow> real \<Rightarrow> shocks \<Rightarrow> error + shocks" where
  "scale_in_place [] modifier d = Inr d"
| "scale_in_place (var # vars) modifier d =
     (case dict_item d var of
        Inl e \<Rightarrow> Inl e
      | Inr v \<Rightarrow> scale_in_place vars modifier (AList.update var (v * modifier) d))"

text \<open>
  One turn of the loop of \<open>run_interactive\<close>, from step 2 to the restoring assignment,
  for a query the parser has answered with \<open>parsed\<close>.  The deep copy is a value of its
  own: updating it leaves the catalog alone.  \<open>print_results\<close> only prints.
\<close>

definition run_interactive_turn :: "forecast_model \<Rightarrow> parsed_query \<Rightarrow> scenario_result action" where
  "run_interactive_turn model parsed =
     (let scenario_key = p_scenario_key parsed;
          modifier = (case p_magnitude_modifier parsed of Some m \<Rightarrow> m | None \<Rightarrow> 1.0)
      in andthen get_world (\<lambda>w.
         andthen (lift (dict_item (SCENARIOS w) scenario_key)) (\<lambda>modified_scenario.
         andthen (lift (scale_in_place (map fst (sc_shocks modified_scenario)) modifier
                          (sc_shocks modified_scenario))) (\<lambda>scaled.
         andthen (get_shocks scenario_key) (\<lambda>original_shocks.
         andthen (set_shocks scenario_key scaled) (\<lambda>_.
         let forecast_weeks = (case p_forecast_weeks parsed of Some n \<Rightarrow> n | None \<Rightarrow> 12)
         in andthen (run_scenario model scenario_key forecast_weeks) (\<lambda>result.
            andthen (set_shocks scenario_key original_shocks) (\<lambda>_.
            ret result))))))))"

section \<open>A stub forecast model\<close>

text \<open>
  A deterministic stand-in for the fitted model, for evaluating the engine on concrete
  inputs: week \<open>i\<close> of the forecast is 75 plus the sum of the drivers of row \<open>i\<close>,
  the interval is one unit either side.  It returns one value per row of the matrix.
\<close>

definition stub_model :: forecast_model where
  "stub_model steps ex =
     Inr \<lparr> predicted_mean = map (\<lambda>row. Fin (75 + sum_list (map snd row))) ex,
           conf_int = map (\<lambda>row. (Fin (74 + sum_list (map snd row)),
                                   Fin (76 + sum_list (map snd row)))) ex \<rparr>"

text \<open>A snapshot and a start-up world to evaluate on.\<close>

definition latest_example :: latest_values where
  "latest_example =
     \<lparr> brent_price = 75, inventories = 420, industrial_prod = 103, dollar_index = 104,
       fed_funds = 5.25, vix = 16, brent_return = 0.01, dollar_return = 0.001,
       indpro_return = 0.002, inventory_pct = 0.01, fed_funds_diff = 0, vix_diff = 0.5 \<rparr>"

definition world_init :: world where
  "world_init = \<lparr> SCENARIOS = SCENARIOS_init, latest = latest_example, trace = [] \<rparr>"

section \<open>Notions used in the statements\<close>

text \<open>
  The row the builder is to produce: each of the five drivers at its latest reading plus
  its shock, a missing shock counting as zero.
\<close>

definition shocked_row :: "latest_values \<Rightarrow> shocks \<Rightarrow> shocks" where
  "shocked_row l shocks =
     [(''dollar_return'', dollar_return l + dict_get shocks ''dollar_return'' 0),
      (''indpro_return'', indpro_return l + dict_get shocks ''indpro_return'' 0),
      (''inventory_pct'', inventory_pct l + dict_get shocks ''inventory_pct'' 0),
      (''fed_funds_diff'', fed_funds_diff l + dict_get shocks ''fed_funds_diff'' 0),
      (''vix_diff'', vix_diff l + dict_get shocks ''vix_diff'' 0)]"

text \<open>The \<open>zero_shocks\<close> of \<open>run_baseline\<close> and the two matrices of a run.\<close>

definition zero_shocks :: shocks where
  "zero_shocks = map (\<lambda>col. (col, 0)) exog_cols"

definition baseline_exog :: "int \<Rightarrow> world \<Rightarrow> exog" where
  "baseline_exog n w = replicate (nat n) (shocked_row (latest w) zero_shocks)"

definition shocked_exog :: "shocks \<Rightarrow> int \<Rightarrow> world \<Rightarrow> exog" where
  "shocked_exog shocks n w = replicate (nat n) (shocked_row (latest w) shocks)"

text \<open>The world once the baseline forecast, and then the shocked forecast, was asked for.\<close>

definition after_baseline :: "int \<Rightarrow> world \<Rightarrow> world" where
  "after_baseline n w =
     w\<lparr> trace := trace w @ [BuildExog zero_shocks n, GetForecast n (baseline_exog n w)] \<rparr>"

definition after_shocked :: "shocks \<Rightarrow> int \<Rightarrow> world \<Rightarrow> world" where
  "after_shocked shocks n w =
     w\<lparr> trace := trace w @ [BuildExog zero_shocks n, GetForecast n (baseline_exog n w),
                             BuildExog shocks n, GetForecast n (shocked_exog shocks n w)] \<rparr>"

text \<open>
  The contract the specification states for the forecast model (section 4.5): asked for a
  horizon of \<open>n\<close> weeks with a matrix of \<open>n\<close> rows, it returns \<open>n\<close> point forecasts.
\<close>

definition returns_horizon :: "forecast_model \<Rightarrow> int \<Rightarrow> bool" where
  "returns_horizon model n \<longleftrightarrow>
     (\<forall>ex. length ex = nat n \<longrightarrow>
        (\<exists>fc. model n ex = Inr fc \<and> length (predicted_mean fc) = nat n))"

text \<open>
  The catalog entry \<open>opec_cut\<close> with its shocks scaled by a modifier of zero, and the
  world in which it is stored: what a caller hands to \<open>run_scenario\<close> for that modifier.
\<close>

definition opec_cut_zeroed :: scenario where
  "opec_cut_zeroed =
     \<lparr> sc_name = ''OPEC Production Cut (10%)'',
       sc_description = ''OPEC announces a coordinated 10% production cut. ''
                      @ ''Supply tightens, inventories draw down, ''
                      @ ''risk sentiment improves.'',
       sc_shocks = modified_shocks_of
                     [(''inventory_pct'', - 0.05), (''vix_diff'', - 2.0),
                      (''dollar_return'', - 0.002), (''indpro_return'', 0.0),
                      (''fed_funds_diff'', 0.0)] 0 \<rparr>"

definition world_zeroed :: world where
  "world_zeroed = snd (set_shocks ''opec_cut'' (sc_shocks opec_cut_zeroed) world_init)"

text \<open>
  \<open>y\<close> is \<open>x\<close> rounded to two decimal places: a whole number of hundredths, at most
  half a hundredth away from \<open>x\<close>.
\<close>

definition rounds_to_cents :: "real \<Rightarrow> real \<Rightarrow> bool" where
  "rounds_to_cents x y \<longleftrightarrow> (\<exists>k::int. y = of_int k / 100) \<and> \<bar>y - x\<bar> \<le> 1 / 200"

text \<open>The events that assign to the catalog.\<close>

fun is_write :: "event \<Rightarrow> bool" where
  "is_write (SetShocks k new) = True"
| "is_write ev = False"

text \<open>
  The world once \<open>SCENARIOS[k]["shocks"] = new\<close> has run, \<open>sc\<close> being the entry
  stored under \<open>k\<close>.
\<close>

definition override :: "string \<Rightarrow> scenario \<Rightarrow> shocks \<Rightarrow> world \<Rightarrow> world" where
  "override k sc new w =
     w\<lparr> trace := trace w @ [SetShocks k new],
         SCENARIOS := AList.update k (sc\<lparr> sc_shocks := new \<rparr>) (SCENARIOS w) \<rparr>"

text \<open>
  A parsed query (an extreme OPEC cut over one week), a continuation that hands the
  result back, and the catalog entry of \<open>opec_cut\<close>, to evaluate the callers on.
\<close>

definition query_extreme :: parsed_query where
  "query_extreme =
     \<lparr> p_scenario_key = ''opec_cut'', p_magnitude_modifier = Some 2.0,
       p_forecast_weeks = Some 1 \<rparr>"

definition finish_stub :: "scenario_result \<Rightarrow> parsed_query \<Rightarrow> shocks \<Rightarrow> error + scenario_result" where
  "finish_stub result parsed modified_shocks = Inr result"

definition opec_cut_entry :: scenario where
  "opec_cut_entry =
     \<lparr> sc_name = ''OPEC Production Cut (10%)'',
       sc_description = ''OPEC announces a coordinated 10% production cut. ''
                      @ ''Supply tightens, inventories draw down, ''
                      @ ''risk sentiment improves.'',
       sc_shocks = [(''inventory_pct'', - 0.05), (''vix_diff'', - 2.0),
                    (''dollar_return'', - 0.002), (''indpro_return'', 0.0),
                    (''fed_funds_diff'', 0.0)] \<rparr>"

section \<open>Basic facts\<close>

lemma andthen_simps:
  "andthen (ret x) f w = f x w"
  "andthen (throw e) f w = (Inl e, w)"
  "andthen (lift (Inr x)) f w = f x w"
  "andthen (lift (Inl e)) f w = (Inl e, w)"
  "andthen get_world g w = g w w"
  "andthen (emit ev) h w = h () (w\<lparr> trace := trace w @ [ev] \<rparr>)"
  by (simp_all add: andthen_def ret_def throw_def lift_def get_world_def emit_def)

lemma in_keys: "map_of c k = Some v \<Longrightarrow> k \<in> fst ` set c"
  by (force dest: map_of_SomeD)

lemma known_key: "k \<in> fst ` set c \<Longrightarrow> \<exists>v. map_of c k = Some v"
  by (metis map_of_eq_None_iff not_Some_eq)

lemma iloc_first: "xs \<noteq> [] \<Longrightarrow> iloc xs 0 = Inr (xs ! 0)"
  by (simp add: iloc_def)

lemma iloc_last: "xs \<noteq> [] \<Longrightarrow> iloc xs (- 1) = Inr (xs ! (length xs - 1))"
  by (cases xs) (simp_all add: iloc_def nat_add_distrib)

lemma iloc_empty: "iloc [] i = Inl (IndexError ''single positional indexer is out-of-bounds'')"
  by (simp add: iloc_def)

lemma stub_returns_horizon: "returns_horizon stub_model n"
  by (simp add: returns_horizon_def stub_model_def)

subsection \<open>The matrix builder never fails\<close>

lemma build_exog_matrix_eq:
  "build_exog_matrix shocks n w =
     (Inr (replicate (nat n) (shocked_row (latest w) shocks)),
      w\<lparr> trace := trace w @ [BuildExog shocks n] \<rparr>)"
  by (simp add: build_exog_matrix_def andthen_simps exog_cols_def dict_item_def
      shocked_row_def Let_def ret_def)

lemma get_forecast_eq:
  "get_forecast model n ex w =
     (model n ex, w\<lparr> trace := trace w @ [GetForecast n ex] \<rparr>)"
  by (simp add: get_forecast_def andthen_simps lift_def)

lemma run_baseline_eq:
  "run_baseline model n w =
     (map_sum id (\<lambda>fc. \<lparr> b_type = ''baseline'', b_forecast_mean = predicted_mean fc,
                          b_conf_int = conf_int fc, b_weeks = n,
                          b_current_price = brent_price (latest w) \<rparr>)
        (model n (baseline_exog n w)),
      after_baseline n w)"
  by (cases "model n (baseline_exog n w)")
     (simp_all add: run_baseline_def Let_def andthen_def build_exog_matrix_eq get_forecast_eq
        zero_shocks_def baseline_exog_def after_baseline_def get_world_def ret_def)

subsection \<open>The outcomes of \<open>run_scenario\<close>\<close>

lemma run_scenario_unknown:
  assumes "scenario_key \<notin> fst ` set (SCENARIOS w)"
  shows "run_scenario model scenario_key n w =
           (Inl (ValueError (unknown_scenario_msg scenario_key (map fst (SCENARIOS w)))), w)"
  using assms by (simp add: run_scenario_def andthen_simps Let_def throw_def)

lemma run_scenario_baseline_fails:
  assumes "map_of (SCENARIOS w) scenario_key = Some sc"
      and "model n (baseline_exog n w) = Inl e"
  shows "run_scenario model scenario_key n w = (Inl e, after_baseline n w)"
  using assms in_keys [OF assms(1)]
  by (simp add: run_scenario_def dict_item_def Let_def andthen_def
      run_baseline_eq get_world_def lift_def ret_def throw_def)

lemma run_scenario_shocked_fails:
  assumes "map_of (SCENARIOS w) scenario_key = Some sc"
      and "model n (baseline_exog n w) = Inr fb"
      and "model n (shocked_exog (sc_shocks sc) n w) = Inl e"
  shows "run_scenario model scenario_key n w = (Inl e, after_shocked (sc_shocks sc) n w)"
  using assms in_keys [OF assms(1)]
  by (simp add: run_scenario_def dict_item_def Let_def andthen_def
      run_baseline_eq build_exog_matrix_eq get_forecast_eq after_baseline_def
      after_shocked_def shocked_exog_def get_world_def lift_def ret_def throw_def)

lemma run_scenario_forecasts:
  assumes "map_of (SCENARIOS w) scenario_key = Some sc"
      and "model n (baseline_exog n w) = Inr fb"
      and "model n (shocked_exog (sc_shocks sc) n w) = Inr fs"
  shows "run_scenario model scenario_key n w =
     (case iloc (predicted_mean fb) (- 1) of Inl e \<Rightarrow> Inl e | Inr baseline_end \<Rightarrow>
      case iloc (predicted_mean fs) (- 1) of Inl e \<Rightarrow> Inl e | Inr shocked_end \<Rightarrow>
      case iloc (predicted_mean fb) 0 of Inl e \<Rightarrow> Inl e | Inr baseline_w1 \<Rightarrow>
      case iloc (predicted_mean fs) 0 of Inl e \<Rightarrow> Inl e | Inr shocked_w1 \<Rightarrow>
        Inr \<lparr> r_scenario_key = scenario_key,
              r_scenario_name = sc_name sc,
              r_scenario_desc = sc_description sc,
              r_shocks = sc_shocks sc,
              r_current_price = brent_price (latest w),
              r_baseline_forecast = predicted_mean fb,
              r_shocked_forecast = predicted_mean fs,
              r_shocked_conf_int = conf_int fs,
              r_impact_week1 = format_price_change baseline_w1 shocked_w1,
              r_impact_week12 = format_price_change baseline_end shocked_end,
              r_weeks = n \<rparr>,
      after_shocked (sc_shocks sc) n w)"
  using assms in_keys [OF assms(1)]
  by (simp add: run_scenario_def dict_item_def Let_def andthen_def
      run_baseline_eq build_exog_matrix_eq get_forecast_eq after_baseline_def
      after_shocked_def shocked_exog_def lift_def ret_def get_world_def throw_def
      split: sum.splits)

lemma known_key_invokes_model:
  assumes "scenario_key \<in> fst ` set (SCENARIOS w)"
  shows "\<exists>rest. trace (snd (run_scenario model scenario_key n w)) =
           trace w @ BuildExog zero_shocks n # GetForecast n (baseline_exog n w) # rest"
proof -
  obtain sc where sc: "map_of (SCENARIOS w) scenario_key = Some sc"
    using known_key [OF assms] by blast
  show ?thesis
  proof (cases "model n (baseline_exog n w)")
    case (Inl e)
    with sc show ?thesis
      by (simp add: run_scenario_baseline_fails after_baseline_def)
  next
    case fb: (Inr fb)
    show ?thesis
    proof (cases "model n (shocked_exog (sc_shocks sc) n w)")
      case (Inl e)
      with sc fb show ?thesis
        by (simp add: run_scenario_shocked_fails after_shocked_def)
    next
      case (Inr fs)
      with sc fb show ?thesis
        by (simp add: run_scenario_forecasts after_shocked_def split: sum.splits)
    qed
  qed
qed

lemma run_scenario_returns:
  assumes sc: "map_of (SCENARIOS w) scenario_key = Some sc"
      and n: "1 \<le> n"
      and model: "returns_horizon model n"
  shows "\<exists>(fb::forecast) (fs::forecast).
           length (predicted_mean fb) = nat n \<and> length (predicted_mean fs) = nat n
           \<and> run_scenario model scenario_key n w =
       (Inr \<lparr> r_scenario_key = scenario_key,
              r_scenario_name = sc_name sc,
              r_scenario_desc = sc_description sc,
              r_shocks = sc_shocks sc,
              r_current_price = brent_price (latest w),
              r_baseline_forecast = predicted_mean fb,
              r_shocked_forecast = predicted_mean fs,
              r_shocked_conf_int = conf_int fs,
              r_impact_week1 =
                format_price_change (predicted_mean fb ! 0) (predicted_mean fs ! 0),
              r_impact_week12 =
                format_price_change (predicted_mean fb ! (nat n - 1))
                  (predicted_mean fs ! (nat n - 1)),
              r_weeks = n \<rparr>,
        after_shocked (sc_shocks sc) n w)"
proof -
  from model obtain fb where fb: "model n (baseline_exog n w) = Inr fb"
      "length (predicted_mean fb) = nat n"
    unfolding returns_horizon_def baseline_exog_def by (metis length_replicate)
  from model obtain fs where fs: "model n (shocked_exog (sc_shocks sc) n w) = Inr fs"
      "length (predicted_mean fs) = nat n"
    unfolding returns_horizon_def shocked_exog_def by (metis length_replicate)
  from n fb(2) fs(2) have ne: "predicted_mean fb \<noteq> []" "predicted_mean fs \<noteq> []"
    by auto
  have "run_scenario model scenario_key n w =
       (Inr \<lparr> r_scenario_key = scenario_key,
              r_scenario_name = sc_name sc,
              r_scenario_desc = sc_description sc,
              r_shocks = sc_shocks sc,
              r_current_price = brent_price (latest w),
              r_baseline_forecast = predicted_mean fb,
              r_shocked_forecast = predicted_mean fs,
              r_shocked_conf_int = conf_int fs,
              r_impact_week1 =
                format_price_change (predicted_mean fb ! 0) (predicted_mean fs ! 0),
              r_impact_week12 =
                format_price_change (predicted_mean fb ! (nat n - 1))
                  (predicted_mean fs ! (nat n - 1)),
              r_weeks = n \<rparr>,
        after_shocked (sc_shocks sc) n w)"
    using sc fb fs ne
    by (simp add: run_scenario_forecasts iloc_first iloc_last)
  with fb(2) fs(2) show ?thesis by blast
qed

subsection \<open>Dictionaries\<close>

lemma dict_get_update_other:
  "k \<noteq> col \<Longrightarrow> dict_get (AList.update k v d) col dflt = dict_get d col dflt"
  by (simp add: dict_get_def update_conv')

lemma world_zeroed_opec_cut:
  "map_of (SCENARIOS world_zeroed) ''opec_cut'' = Some opec_cut_zeroed"
  by (simp add: world_zeroed_def set_shocks_def andthen_simps dict_item_def world_init_def
      SCENARIOS_init_def opec_cut_zeroed_def modified_shocks_of_def)

subsection \<open>Rounding and formatting\<close>

lemma rint_close: "\<bar>of_int (rint y) - y\<bar> \<le> 1 / 2"
  unfolding rint_def Let_def by (auto simp: abs_le_iff)

lemma round2_rounds: "rounds_to_cents x (round2 x)"
proof -
  have "\<bar>of_int (rint (x * 100)) - x * 100\<bar> \<le> 1 / 2"
    by (rule rint_close)
  then have "\<bar>of_int (rint (x * 100)) / 100 - x\<bar> \<le> 1 / 200"
    by (simp add: abs_le_iff field_simps)
  then show ?thesis
    unfolding rounds_to_cents_def round2_def by blast
qed



lemma chart_distinct: "chart_up \<noteq> chart_down"
  by (simp add: chart_up_def chart_down_def)

lemma sign_from_unrounded_difference:
  "i_difference (format_price_change (Fin 75) (Fin 75.001)) = Fin 0
   \<and> i_arrow (format_price_change (Fin 75) (Fin 75.001)) = chart_up"
  by (simp add: format_price_change_def Let_def round2_def rint_def)

lemma zero_baseline_formatted:
  "i_formatted (format_price_change (Fin 0) (Fin 1)) =
     chart_up @ '' +$1.00/barrel (+inf%)''"
  by (simp add: format_price_change_def Let_def inf_of_def fmt_fin_def rint_def char_of_def bit_0)

lemma exog_nonpositive:
  "n \<le> 0 \<Longrightarrow> baseline_exog n w = []"
  "n \<le> 0 \<Longrightarrow> shocked_exog shocks n w = []"
  by (simp_all add: baseline_exog_def shocked_exog_def)

subsection \<open>Scaling and the callers\<close>

lemma modified_keys: "map fst (modified_shocks_of shocks m) = map fst shocks"
  by (induction shocks) (auto simp: modified_shocks_of_def)

lemma modified_values:
  "map snd (modified_shocks_of shocks m) = map (\<lambda>v. v * m) (map snd shocks)"
  by (induction shocks) (auto simp: modified_shocks_of_def)

lemma modified_lookup:
  "map_of (modified_shocks_of shocks m) k = map_option (\<lambda>v. v * m) (map_of shocks k)"
  by (induction shocks) (auto simp: modified_shocks_of_def)

lemma modified_one: "modified_shocks_of shocks 1 = shocks"
  by (induction shocks) (auto simp: modified_shocks_of_def)

lemma modified_zero: "map snd (modified_shocks_of shocks 0) = replicate (length shocks) 0"
  by (induction shocks) (auto simp: modified_shocks_of_def)

text \<open>The loop of test.py has scaled the keys already visited and no other.\<close>

lemma update_distinct:
  assumes "distinct (map fst d)" "map_of d var = Some v"
  shows "AList.update var u d = map (\<lambda>(k, x). (k, if k = var then u else x)) d"
  using assms
proof (induction d)
  case Nil
  then show ?case by simp
next
  case (Cons p d)
  obtain k x where p: "p = (k, x)" by (cases p)
  show ?case
  proof (cases "k = var")
    case True
    with Cons.prems p have "var \<notin> fst ` set d" by auto
    then have "map (\<lambda>(k, x). (k, if k = var then u else x)) d = d"
      by (induction d) auto
    with True p show ?thesis by simp
  next
    case False
    with Cons p show ?thesis by simp
  qed
qed

lemma scale_in_place_partial:
  assumes "distinct (map fst d)" "distinct vars" "set vars \<subseteq> fst ` set d"
  shows "scale_in_place vars m d =
           Inr (map (\<lambda>(k, v). (k, if k \<in> set vars then v * m else v)) d)"
  using assms
proof (induction vars arbitrary: d)
  case Nil
  then show ?case by simp
next
  case (Cons var vars)
  from Cons.prems(3) obtain v where v: "map_of d var = Some v"
    by (metis known_key list.set_intros(1) subsetD)
  let ?d' = "AList.update var (v * m) d"
  have d': "?d' = map (\<lambda>(k, x). (k, if k = var then v * m else x)) d"
    by (rule update_distinct [OF Cons.prems(1) v])
  have keys: "map fst ?d' = map fst d"
    unfolding d' by (induction d) auto
  have keyset: "fst ` set ?d' = fst ` set d"
    using keys by (metis set_map)
  have "scale_in_place vars m ?d' =
          Inr (map (\<lambda>(k, v). (k, if k \<in> set vars then v * m else v)) ?d')"
    using Cons.prems by (intro Cons.IH) (simp_all add: keys keyset del: update_keys)
  also have "map (\<lambda>(k, v). (k, if k \<in> set vars then v * m else v)) ?d' =
          map (\<lambda>(k, v). (k, if k \<in> set (var # vars) then v * m else v)) d"
  proof -
    have "var \<notin> set vars" using Cons.prems(2) by simp
    moreover have "x = v" if "(var, x) \<in> set d" for x
      using that v Cons.prems(1) by (metis map_of_is_SomeI option.inject)
    ultimately show ?thesis
      unfolding d' by (auto simp: comp_def)
  qed
  finally show ?case
    using v by (simp add: dict_item_def)
qed

lemma scale_in_place_eq:
  assumes "distinct (map fst d)"
  shows "scale_in_place (map fst d) m d = Inr (modified_shocks_of d m)"
proof -
  have "scale_in_place (map fst d) m d =
          Inr (map (\<lambda>(k, v). (k, if k \<in> set (map fst d) then v * m else v)) d)"
    using assms by (intro scale_in_place_partial) auto
  also have "map (\<lambda>(k, v). (k, if k \<in> set (map fst d) then v * m else v)) d
               = modified_shocks_of d m"
    unfolding modified_shocks_of_def by (rule map_cong) force+
  finally show ?thesis .
qed

lemma get_shocks_eq:
  "get_shocks k w = (map_sum id sc_shocks (dict_item (SCENARIOS w) k), w)"
  by (cases "map_of (SCENARIOS w) k")
     (simp_all add: get_shocks_def andthen_def get_world_def lift_def ret_def dict_item_def)

lemma set_shocks_unknown:
  "map_of (SCENARIOS w) k = None \<Longrightarrow> set_shocks k new w = (Inl (KeyError k), w)"
  by (simp add: set_shocks_def andthen_def get_world_def lift_def dict_item_def)

lemma set_shocks_known:
  "map_of (SCENARIOS w) k = Some sc \<Longrightarrow>
     set_shocks k new w =
       (Inr (), w\<lparr> trace := trace w @ [SetShocks k new],
                    SCENARIOS := AList.update k (sc\<lparr> sc_shocks := new \<rparr>) (SCENARIOS w) \<rparr>)"
  by (simp add: set_shocks_def andthen_def get_world_def lift_def dict_item_def emit_def)

lemma run_scenario_world:
  "snd (run_scenario model k n w) = w
   \<or> snd (run_scenario model k n w) = after_baseline n w
   \<or> (\<exists>sh. snd (run_scenario model k n w) = after_shocked sh n w)"
proof (cases "k \<in> fst ` set (SCENARIOS w)")
  case False
  then show ?thesis by (simp add: run_scenario_unknown)
next
  case True
  obtain sc where sc: "map_of (SCENARIOS w) k = Some sc"
    using known_key [OF True] by blast
  show ?thesis
  proof (cases "model n (baseline_exog n w)")
    case (Inl e)
    with sc show ?thesis by (simp add: run_scenario_baseline_fails)
  next
    case fb: (Inr fb)
    show ?thesis
    proof (cases "model n (shocked_exog (sc_shocks sc) n w)")
      case (Inl e)
      with sc fb have "snd (run_scenario model k n w) = after_shocked (sc_shocks sc) n w"
        by (simp add: run_scenario_shocked_fails)
      then show ?thesis by blast
    next
      case (Inr fs)
      with sc fb have "snd (run_scenario model k n w) = after_shocked (sc_shocks sc) n w"
        by (simp add: run_scenario_forecasts)
      then show ?thesis by blast
    qed
  qed
qed

lemma run_scenario_frame:
  "SCENARIOS (snd (run_scenario model k n w)) = SCENARIOS w"
  "latest (snd (run_scenario model k n w)) = latest w"
  "filter is_write (trace (snd (run_scenario model k n w))) = filter is_write (trace w)"
  using run_scenario_world [of model k n w]
  by (auto simp: after_baseline_def after_shocked_def)

lemma override_lookup:
  "map_of (SCENARIOS (override k sc new w)) k = Some (sc\<lparr> sc_shocks := new \<rparr>)"
  by (simp add: override_def update_conv')

lemma override_back:
  assumes "map_of (SCENARIOS w) k = Some sc" "SCENARIOS w2 = SCENARIOS (override k sc new w)"
  shows "SCENARIOS (override k (sc\<lparr> sc_shocks := new \<rparr>) (sc_shocks sc) w2) = SCENARIOS w"
  using assms by (simp add: override_def update_triv)

lemma run_simulation_try_unparsed:
  "run_simulation_try model (Inl e) rw finish w = (Inl e, w)"
  by (simp add: run_simulation_try_def andthen_simps)

lemma run_simulation_try_unknown:
  assumes "map_of (SCENARIOS w) (p_scenario_key parsed) = None"
  shows "run_simulation_try model (Inr parsed) rw finish w
           = (Inl (KeyError (p_scenario_key parsed)), w)"
  using assms
  by (simp add: run_simulation_try_def Let_def andthen_def get_shocks_eq
      dict_item_def lift_def)

lemma run_simulation_try_known:
  assumes sc: "map_of (SCENARIOS w) (p_scenario_key parsed) = Some sc"
      and run: "run_scenario model (p_scenario_key parsed)
                  (case p_forecast_weeks parsed of Some n \<Rightarrow> n | None \<Rightarrow> rw)
                  (override (p_scenario_key parsed) sc
                     (modified_shocks_of (sc_shocks sc)
                        (case p_magnitude_modifier parsed of Some m \<Rightarrow> m | None \<Rightarrow> 1.0)) w)
                = (res, w2)"
  shows "run_simulation_try model (Inr parsed) rw finish w =
     (case res of
        Inl e \<Rightarrow> (Inl e, w2)
      | Inr result \<Rightarrow>
          (finish result parsed
             (modified_shocks_of (sc_shocks sc)
                (case p_magnitude_modifier parsed of Some m \<Rightarrow> m | None \<Rightarrow> 1.0)),
           override (p_scenario_key parsed)
             (sc\<lparr> sc_shocks := modified_shocks_of (sc_shocks sc)
                (case p_magnitude_modifier parsed of Some m \<Rightarrow> m | None \<Rightarrow> 1.0) \<rparr>)
             (sc_shocks sc) w2))"
proof -
  let ?k = "p_scenario_key parsed"
  let ?m = "modified_shocks_of (sc_shocks sc)
              (case p_magnitude_modifier parsed of Some m \<Rightarrow> m | None \<Rightarrow> 1.0)"
  have "SCENARIOS w2 = SCENARIOS (override ?k sc ?m w)"
    using run_scenario_frame(1) [of model ?k _ "override ?k sc ?m w"] run
    by (metis snd_conv)
  then have look: "map_of (SCENARIOS w2) ?k = Some (sc\<lparr> sc_shocks := ?m \<rparr>)"
    by (simp add: override_lookup)
  have set1: "set_shocks ?k ?m w = (Inr (), override ?k sc ?m w)"
    using sc by (simp add: set_shocks_known override_def)
  have set2: "set_shocks ?k (sc_shocks sc) w2 =
                (Inr (), override ?k (sc\<lparr> sc_shocks := ?m \<rparr>) (sc_shocks sc) w2)"
    using look by (simp add: set_shocks_known override_def)
  show ?thesis
    using sc run set1 set2
    by (cases res)
       (simp_all add: run_simulation_try_def andthen_simps Let_def andthen_def get_shocks_eq
          dict_item_def lift_def)
qed

lemma scale_in_place_total:
  "set vars \<subseteq> fst ` set d \<Longrightarrow> \<exists>d'. scale_in_place vars m d = Inr d'"
proof (induction vars arbitrary: d)
  case Nil
  then show ?case by simp
next
  case (Cons var vars)
  from Cons.prems obtain v where v: "map_of d var = Some v"
    by (metis known_key list.set_intros(1) subsetD)
  have "fst ` set (AList.update var (v * m) d) = fst ` set d"
    using in_keys [OF v] by (metis set_map update_keys)
  with Cons.prems have "set vars \<subseteq> fst ` set (AList.update var (v * m) d)"
    by simp
  from Cons.IH [OF this] v show ?case
    by (simp add: dict_item_def)
qed

lemma run_interactive_turn_unknown:
  assumes "map_of (SCENARIOS w) (p_scenario_key parsed) = None"
  shows "run_interactive_turn model parsed w = (Inl (KeyError (p_scenario_key parsed)), w)"
  using assms
  by (simp add: run_interactive_turn_def Let_def andthen_def get_world_def lift_def
      dict_item_def)

lemma run_interactive_turn_known:
  assumes sc: "map_of (SCENARIOS w) (p_scenario_key parsed) = Some sc"
  shows "\<exists>scaled res w2.
     run_scenario model (p_scenario_key parsed)
        (case p_forecast_weeks parsed of Some n \<Rightarrow> n | None \<Rightarrow> 12)
        (override (p_scenario_key parsed) sc scaled w) = (res, w2)
     \<and> run_interactive_turn model parsed w =
         (case res of
            Inl e \<Rightarrow> (Inl e, w2)
          | Inr result \<Rightarrow>
              (Inr result,
               override (p_scenario_key parsed) (sc\<lparr> sc_shocks := scaled \<rparr>)
                 (sc_shocks sc) w2))"
proof -
  let ?k = "p_scenario_key parsed"
  let ?m = "case p_magnitude_modifier parsed of Some m \<Rightarrow> m | None \<Rightarrow> 1.0"
  let ?n = "case p_forecast_weeks parsed of Some n \<Rightarrow> n | None \<Rightarrow> 12"
  obtain scaled where scaled:
      "scale_in_place (map fst (sc_shocks sc)) ?m (sc_shocks sc) = Inr scaled"
    using scale_in_place_total [of "map fst (sc_shocks sc)" "sc_shocks sc" ?m] by auto
  obtain res w2 where run:
      "run_scenario model ?k ?n (override ?k sc scaled w) = (res, w2)"
    by (cases "run_scenario model ?k ?n (override ?k sc scaled w)")
  have "SCENARIOS w2 = SCENARIOS (override ?k sc scaled w)"
    using run_scenario_frame(1) [of model ?k ?n "override ?k sc scaled w"] run
    by simp
  then have look: "map_of (SCENARIOS w2) ?k = Some (sc\<lparr> sc_shocks := scaled \<rparr>)"
    by (simp add: override_lookup)
  have set1: "set_shocks ?k scaled w = (Inr (), override ?k sc scaled w)"
    using sc by (simp add: set_shocks_known override_def)
  have set2: "set_shocks ?k (sc_shocks sc) w2 =
                (Inr (), override ?k (sc\<lparr> sc_shocks := scaled \<rparr>) (sc_shocks sc) w2)"
    using look by (simp add: set_shocks_known override_def)
  have "run_interactive_turn model parsed w =
         (case res of
            Inl e \<Rightarrow> (Inl e, w2)
          | Inr result \<Rightarrow>
              (Inr result,
               override ?k (sc\<lparr> sc_shocks := scaled \<rparr>) (sc_shocks sc) w2))"
    using sc scaled run set1 set2
    by (cases res)
       (simp_all add: run_interactive_turn_def Let_def andthen_def get_shocks_eq
          get_world_def dict_item_def lift_def ret_def)
  with run show ?thesis by blast
qed

lemma override_latest: "latest (override k sc new w) = latest w"
  by (simp add: override_def)

lemma run_scenario_latest_eq:
  "run_scenario model k n w = (res, w2) \<Longrightarrow> latest w2 = latest w"
  using run_scenario_frame(2) [of model k n w] by simp

lemma run_scenario_catalog_eq:
  "run_scenario model k n w = (res, w2) \<Longrightarrow> SCENARIOS w2 = SCENARIOS w"
  using run_scenario_frame(1) [of model k n w] by simp

lemma run_simulation_try_frame:
  fixes finish :: "scenario_result \<Rightarrow> parsed_query \<Rightarrow> shocks \<Rightarrow> error + 'r"
  shows "latest (snd (run_simulation_try model po rw finish w)) = latest w"
    and "fst (run_simulation_try model po rw finish w) = Inr response
           \<Longrightarrow> SCENARIOS (snd (run_simulation_try model po rw finish w)) = SCENARIOS w"
proof -
  have "latest (snd (run_simulation_try model po rw finish w)) = latest w
      \<and> (fst (run_simulation_try model po rw finish w) = Inr response
           \<longrightarrow> SCENARIOS (snd (run_simulation_try model po rw finish w)) = SCENARIOS w)"
  proof (cases po)
    case (Inl e)
    then show ?thesis by (simp add: run_simulation_try_unparsed)
  next
    case (Inr parsed)
    show ?thesis
    proof (cases "map_of (SCENARIOS w) (p_scenario_key parsed)")
      case None
      with Inr show ?thesis by (simp add: run_simulation_try_unknown)
    next
      case (Some sc)
      let ?k = "p_scenario_key parsed"
      let ?m = "modified_shocks_of (sc_shocks sc)
                  (case p_magnitude_modifier parsed of Some m \<Rightarrow> m | None \<Rightarrow> 1.0)"
      let ?n = "case p_forecast_weeks parsed of Some n \<Rightarrow> n | None \<Rightarrow> rw"
      obtain res w2 where run: "run_scenario model ?k ?n (override ?k sc ?m w) = (res, w2)"
        by (cases "run_scenario model ?k ?n (override ?k sc ?m w)")
      note eq = run_simulation_try_known [OF Some run, of finish]
      have l: "latest w2 = latest w"
        using run_scenario_latest_eq [OF run] by (simp add: override_latest)
      have c: "SCENARIOS w2 = SCENARIOS (override ?k sc ?m w)"
        by (rule run_scenario_catalog_eq [OF run])
      show ?thesis
        unfolding Inr eq using l override_back [OF Some c]
        by (cases res) (simp_all add: override_latest)
    qed
  qed
  then show "latest (snd (run_simulation_try model po rw finish w)) = latest w"
    and "fst (run_simulation_try model po rw finish w) = Inr response
           \<Longrightarrow> SCENARIOS (snd (run_simulation_try model po rw finish w)) = SCENARIOS w"
    by blast+
qed

lemma run_simulation_snd:
  "snd (run_simulation model po rw finish w) = snd (run_simulation_try model po rw finish w)"
  by (simp add: run_simulation_def split: prod.splits sum.splits)

lemma run_simulation_fst:
  "fst (run_simulation model po rw finish w) = Inr response
     \<longleftrightarrow> fst (run_simulation_try model po rw finish w) = Inr response"
  by (auto simp: run_simulation_def split: prod.splits sum.splits)

lemma run_interactive_turn_frame:
  "latest (snd (run_interactive_turn model parsed w)) = latest w
   \<and> (fst (run_interactive_turn model parsed w) = Inr result
        \<longrightarrow> SCENARIOS (snd (run_interactive_turn model parsed w)) = SCENARIOS w)"
proof (cases "map_of (SCENARIOS w) (p_scenario_key parsed)")
  case None
  then show ?thesis by (simp add: run_interactive_turn_unknown)
next
  case (Some sc)
  let ?k = "p_scenario_key parsed"
  let ?n = "case p_forecast_weeks parsed of Some n \<Rightarrow> n | None \<Rightarrow> 12"
  from run_interactive_turn_known [OF Some, of model] obtain scaled res w2 where
      run: "run_scenario model ?k ?n (override ?k sc scaled w) = (res, w2)"
    and eq: "run_interactive_turn model parsed w =
         (case res of
            Inl e \<Rightarrow> (Inl e, w2)
          | Inr result \<Rightarrow>
              (Inr result,
               override ?k (sc\<lparr> sc_shocks := scaled \<rparr>) (sc_shocks sc) w2))"
    by blast
  have l: "latest w2 = latest w"
    using run_scenario_latest_eq [OF run] by (simp add: override_latest)
  have c: "SCENARIOS w2 = SCENARIOS (override ?k sc scaled w)"
    by (rule run_scenario_catalog_eq [OF run])
  show ?thesis
    unfolding eq using l override_back [OF Some c]
    by (cases res) (simp_all add: override_latest)
qed

lemma unknown_lookup: "k \<notin> fst ` set c \<Longrightarrow> map_of c k = None"
  by (simp add: map_of_eq_None_iff)

lemma opec_cut_lookup: "map_of (SCENARIOS world_init) ''opec_cut'' = Some opec_cut_entry"
  by (simp add: world_init_def SCENARIOS_init_def opec_cut_entry_def)

lemma scaled_extreme:
  "modified_shocks_of (sc_shocks opec_cut_entry) 2 =
     [(''inventory_pct'', - 0.1), (''vix_diff'', - 4), (''dollar_return'', - 0.004),
      (''indpro_return'', 0), (''fed_funds_diff'', 0)]"
  by (simp add: modified_shocks_of_def opec_cut_entry_def)

lemma extreme_run:
  "run_simulation stub_model (Inr query_extreme) 12 finish_stub world_init =
     (case run_scenario stub_model ''opec_cut'' 1
             (override ''opec_cut'' opec_cut_entry
                (modified_shocks_of (sc_shocks opec_cut_entry) 2) world_init) of
        (Inl e, w2) \<Rightarrow> (Inl (HTTPException (status_of_error e) (str_of_error e)), w2)
      | (Inr result, w2) \<Rightarrow>
          (Inr result,
           override ''opec_cut''
             (opec_cut_entry\<lparr> sc_shocks := modified_shocks_of (sc_shocks opec_cut_entry) 2 \<rparr>)
             (sc_shocks opec_cut_entry) w2))"
proof -
  obtain res w2 where run:
    "run_scenario stub_model ''opec_cut'' 1
       (override ''opec_cut'' opec_cut_entry
          (modified_shocks_of (sc_shocks opec_cut_entry) 2) world_init) = (res, w2)"
    by (cases "run_scenario stub_model ''opec_cut'' 1
       (override ''opec_cut'' opec_cut_entry
          (modified_shocks_of (sc_shocks opec_cut_entry) 2) world_init)")
  have k: "map_of (SCENARIOS world_init) (p_scenario_key query_extreme) = Some opec_cut_entry"
    by (simp add: query_extreme_def opec_cut_lookup)
  have run': "run_scenario stub_model (p_scenario_key query_extreme)
                  (case p_forecast_weeks query_extreme of Some n \<Rightarrow> n | None \<Rightarrow> 12)
                  (override (p_scenario_key query_extreme) opec_cut_entry
                     (modified_shocks_of (sc_shocks opec_cut_entry)
                        (case p_magnitude_modifier query_extreme of Some m \<Rightarrow> m | None \<Rightarrow> 1.0))
                     world_init)
                = (res, w2)"
    using run by (simp add: query_extreme_def)
  show ?thesis
    unfolding run_simulation_def run_simulation_try_known [OF k run', of finish_stub] run
    by (cases res) (simp_all add: query_extreme_def finish_stub_def)
qed

lemma extreme_inner:
  "\<exists>r. run_scenario stub_model ''opec_cut'' 1
             (override ''opec_cut'' opec_cut_entry
                (modified_shocks_of (sc_shocks opec_cut_entry) 2) world_init)
          = (Inr r,
             after_shocked (modified_shocks_of (sc_shocks opec_cut_entry) 2) 1
               (override ''opec_cut'' opec_cut_entry
                  (modified_shocks_of (sc_shocks opec_cut_entry) 2) world_init))
       \<and> r_shocks r = modified_shocks_of (sc_shocks opec_cut_entry) 2"
proof -
  have n: "(1::int) \<le> 1" by simp
  from run_scenario_returns
         [OF override_lookup [of "''opec_cut''" opec_cut_entry
               "modified_shocks_of (sc_shocks opec_cut_entry) 2" world_init]
             n stub_returns_horizon]
  show ?thesis by auto
qed

text \<open>
  When \<open>run_scenario\<close> raises inside \<open>run_simulation\<close>, the restoring assignment is
  skipped: here, with a horizon of 0, the catalog still holds the scaled shocks after the
  call has ended with status 500.
\<close>

lemma error_exit_keeps_override:
  "fst (run_simulation stub_model (Inr (query_extreme\<lparr> p_forecast_weeks := Some 0 \<rparr>)) 12
          finish_stub world_init)
     = Inl (HTTPException 500 ''single positional indexer is out-of-bounds'')
   \<and> map_of (SCENARIOS (snd (run_simulation stub_model
          (Inr (query_extreme\<lparr> p_forecast_weeks := Some 0 \<rparr>)) 12 finish_stub world_init)))
        ''opec_cut''
     = Some (opec_cut_entry\<lparr> sc_shocks :=
          [(''inventory_pct'', - 0.1), (''vix_diff'', - 4), (''dollar_return'', - 0.004),
           (''indpro_return'', 0), (''fed_funds_diff'', 0)] \<rparr>)"
proof -
  let ?q = "query_extreme\<lparr> p_forecast_weeks := Some 0 \<rparr>"
  let ?m = "modified_shocks_of (sc_shocks opec_cut_entry) 2"
  let ?w1 = "override ''opec_cut'' opec_cut_entry ?m world_init"
  have k: "map_of (SCENARIOS world_init) (p_scenario_key ?q) = Some opec_cut_entry"
    by (simp add: query_extreme_def opec_cut_lookup)
  have m: "stub_model 0 [] = Inr \<lparr> predicted_mean = [], conf_int = [] \<rparr>"
    by (simp add: stub_model_def)
  have inner: "run_scenario stub_model ''opec_cut'' 0 ?w1 =
      (Inl (IndexError ''single positional indexer is out-of-bounds''),
       after_shocked ?m 0 ?w1)"
    using m override_lookup [of "''opec_cut''" opec_cut_entry ?m world_init]
    by (simp add: run_scenario_forecasts exog_nonpositive iloc_empty)
  have run': "run_scenario stub_model (p_scenario_key ?q)
                  (case p_forecast_weeks ?q of Some n \<Rightarrow> n | None \<Rightarrow> 12)
                  (override (p_scenario_key ?q) opec_cut_entry
                     (modified_shocks_of (sc_shocks opec_cut_entry)
                        (case p_magnitude_modifier ?q of Some m \<Rightarrow> m | None \<Rightarrow> 1.0))
                     world_init)
                = (Inl (IndexError ''single positional indexer is out-of-bounds''),
                   after_shocked ?m 0 ?w1)"
    using inner by (simp add: query_extreme_def)
  show ?thesis
    unfolding run_simulation_def run_simulation_try_known [OF k run', of finish_stub]
    by (simp add: after_shocked_def override_def update_conv' scaled_extreme)
qed

section \<open>The claims\<close>



text \<open>
  C10.  For a scenario key that is not in the catalog, \<open>run_scenario\<close> raises and hands
  back the world it was given: no matrix was built and the model was not asked (the trace
  is as before), catalog and snapshot are as before, and the outcome does not depend on
  the model.
\<close>

theorem run_scenario_unknown_key_atomic:
  assumes "scenario_key \<notin> fst ` set (SCENARIOS w)"
  shows "(\<exists>e. fst (run_scenario model scenario_key forecast_weeks w) = Inl e)
       \<and> snd (run_scenario model scenario_key forecast_weeks w) = w
       \<and> trace (snd (run_scenario model scenario_key forecast_weeks w)) = trace w
       \<and> run_scenario model' scenario_key forecast_weeks w
           = run_scenario model scenario_key forecast_weeks w"
  using assms by (simp add: run_scenario_unknown)

theorem run_scenario_unknown_key_atomic_witness:
  "(\<exists>e. fst (run_scenario stub_model ''made_up_key'' 12 world_init) = Inl e)
   \<and> snd (run_scenario stub_model ''made_up_key'' 12 world_init) = world_init
   \<and> trace (snd (run_scenario stub_model ''made_up_key'' 12 world_init)) = []"
  using run_scenario_unknown_key_atomic
          [of "''made_up_key''" world_init stub_model 12 stub_model]
  by (simp add: world_init_def SCENARIOS_init_def)

text \<open>
  C2.  For every shock mapping and every \<open>forecast_weeks \<ge> 1\<close> the matrix builder
  returns exactly \<open>forecast_weeks\<close> rows, each of them the five drivers at
  \<open>base[driver] + shocks.get(driver, 0.0)\<close>; a name in the shock mapping that is not
  one of the five drivers changes nothing and raises nothing.
\<close>

theorem build_exog_matrix_rows:
  assumes "1 \<le> forecast_weeks"
  shows "\<exists>m. fst (build_exog_matrix shocks forecast_weeks w) = Inr m
           \<and> int (length m) = forecast_weeks
           \<and> (\<forall>row \<in> set m. row =
                [(''dollar_return'',
                    dollar_return (latest w) + dict_get shocks ''dollar_return'' 0.0),
                 (''indpro_return'',
                    indpro_return (latest w) + dict_get shocks ''indpro_return'' 0.0),
                 (''inventory_pct'',
                    inventory_pct (latest w) + dict_get shocks ''inventory_pct'' 0.0),
                 (''fed_funds_diff'',
                    fed_funds_diff (latest w) + dict_get shocks ''fed_funds_diff'' 0.0),
                 (''vix_diff'',
                    vix_diff (latest w) + dict_get shocks ''vix_diff'' 0.0)])
           \<and> (\<forall>k v. k \<notin> set exog_cols \<longrightarrow>
                 fst (build_exog_matrix (AList.update k v shocks) forecast_weeks w) = Inr m)"
  using assms
  by (simp add: build_exog_matrix_eq shocked_row_def dict_get_update_other exog_cols_def)

theorem build_exog_matrix_rows_witness:
  "fst (build_exog_matrix [(''vix_diff'', 2), (''gold_return'', 9)] 2 world_init) =
     Inr [[(''dollar_return'', 0.001), (''indpro_return'', 0.002), (''inventory_pct'', 0.01),
           (''fed_funds_diff'', 0), (''vix_diff'', 2.5)],
          [(''dollar_return'', 0.001), (''indpro_return'', 0.002), (''inventory_pct'', 0.01),
           (''fed_funds_diff'', 0), (''vix_diff'', 2.5)]]"
  using build_exog_matrix_rows [of 2 "[(''vix_diff'', 2), (''gold_return'', 9)]" world_init]
  by (simp add: build_exog_matrix_eq shocked_row_def dict_get_def world_init_def
      latest_example_def numeral_2_eq_2)

text \<open>
  C8.  For every key of the catalog and every horizon \<open>n \<ge> 1\<close>, with a model that
  keeps its contract, \<open>run_scenario\<close> returns; the baseline and the shocked forecast
  have length \<open>n\<close>; \<open>impact_week1\<close> is computed from position 0 of both and
  \<open>impact_week12\<close> from position \<open>n - 1\<close> of both.
\<close>

theorem run_scenario_lengths_and_impacts:
  assumes "scenario_key \<in> fst ` set (SCENARIOS w)"
      and "1 \<le> n"
      and "returns_horizon model n"
  shows "\<exists>r w'. run_scenario model scenario_key n w = (Inr r, w')
           \<and> int (length (r_baseline_forecast r)) = n
           \<and> int (length (r_shocked_forecast r)) = n
           \<and> r_impact_week1 r =
               format_price_change (r_baseline_forecast r ! 0) (r_shocked_forecast r ! 0)
           \<and> r_impact_week12 r =
               format_price_change (r_baseline_forecast r ! nat (n - 1))
                 (r_shocked_forecast r ! nat (n - 1))"
proof -
  obtain sc where sc: "map_of (SCENARIOS w) scenario_key = Some sc"
    using known_key [OF assms(1)] by blast
  have idx: "nat (n - 1) = nat n - 1"
    using assms(2) by simp
  from run_scenario_returns [OF sc assms(2,3)] obtain fb fs :: forecast where
      len: "length (predicted_mean fb) = nat n" "length (predicted_mean fs) = nat n"
    and run: "run_scenario model scenario_key n w =
       (Inr \<lparr> r_scenario_key = scenario_key,
              r_scenario_name = sc_name sc,
              r_scenario_desc = sc_description sc,
              r_shocks = sc_shocks sc,
              r_current_price = brent_price (latest w),
              r_baseline_forecast = predicted_mean fb,
              r_shocked_forecast = predicted_mean fs,
              r_shocked_conf_int = conf_int fs,
              r_impact_week1 =
                format_price_change (predicted_mean fb ! 0) (predicted_mean fs ! 0),
              r_impact_week12 =
                format_price_change (predicted_mean fb ! (nat n - 1))
                  (predicted_mean fs ! (nat n - 1)),
              r_weeks = n \<rparr>,
        after_shocked (sc_shocks sc) n w)"
    by blast
  from assms(2) len show ?thesis
    unfolding run by (simp add: idx)
qed

theorem run_scenario_lengths_and_impacts_witness:
  "''opec_cut'' \<in> fst ` set (SCENARIOS world_init) \<and> (1::int) \<le> 2
   \<and> returns_horizon stub_model 2
   \<and> (\<exists>r w'. run_scenario stub_model ''opec_cut'' 2 world_init = (Inr r, w')
           \<and> int (length (r_baseline_forecast r)) = 2
           \<and> int (length (r_shocked_forecast r)) = 2
           \<and> r_impact_week1 r =
               format_price_change (r_baseline_forecast r ! 0) (r_shocked_forecast r ! 0)
           \<and> r_impact_week12 r =
               format_price_change (r_baseline_forecast r ! nat (2 - 1))
                 (r_shocked_forecast r ! nat (2 - 1)))"
proof -
  have k: "''opec_cut'' \<in> fst ` set (SCENARIOS world_init)"
    by (simp add: world_init_def SCENARIOS_init_def)
  have n: "(1::int) \<le> 2" by simp
  from run_scenario_lengths_and_impacts [OF k n stub_returns_horizon]
    k stub_returns_horizon [of 2]
  show ?thesis by simp
qed

text \<open>
  C7.  When every shock value of the scenario stored under the key is exactly zero, a
  run that returns has a shocked forecast equal to its baseline forecast, for every
  horizon; and for \<open>n \<ge> 1\<close>, with a model that keeps its contract, the run does
  return.  The model is a function of its inputs, so it is deterministic.
\<close>

theorem zero_shocks_forecast_equals_baseline:
  assumes sc: "map_of (SCENARIOS w) scenario_key = Some sc"
      and zero: "\<forall>v \<in> snd ` set (sc_shocks sc). v = 0"
  shows "(\<forall>r w'. run_scenario model scenario_key n w = (Inr r, w')
             \<longrightarrow> r_shocked_forecast r = r_baseline_forecast r)
       \<and> (1 \<le> n \<and> returns_horizon model n
             \<longrightarrow> (\<exists>r w'. run_scenario model scenario_key n w = (Inr r, w')))"
proof -
  have get0: "dict_get (sc_shocks sc) col 0 = 0" for col
    using zero by (auto simp: dict_get_def split: option.splits dest!: map_of_SomeD)
  have "shocked_row (latest w) (sc_shocks sc) = shocked_row (latest w) zero_shocks"
    by (simp add: shocked_row_def get0) (simp add: zero_shocks_def exog_cols_def dict_get_def)
  then have same: "shocked_exog (sc_shocks sc) n w = baseline_exog n w"
    by (simp add: shocked_exog_def baseline_exog_def)
  have eq: "r_shocked_forecast r = r_baseline_forecast r"
    if run: "run_scenario model scenario_key n w = (Inr r, w')" for r w'
  proof (cases "model n (baseline_exog n w)")
    case (Inl e)
    with sc run show ?thesis
      by (simp add: run_scenario_baseline_fails)
  next
    case (Inr fb)
    with sc run same show ?thesis
      by (auto simp: run_scenario_forecasts split: sum.splits)
  qed
  have ex: "\<exists>r w'. run_scenario model scenario_key n w = (Inr r, w')"
    if "1 \<le> n" "returns_horizon model n"
    using run_scenario_returns [OF sc that] by blast
  from eq ex show ?thesis by blast
qed

theorem zero_shocks_forecast_equals_baseline_witness:
  "map_of (SCENARIOS world_zeroed) ''opec_cut'' = Some opec_cut_zeroed
   \<and> map snd (sc_shocks opec_cut_zeroed) = [0, 0, 0, 0, 0]
   \<and> (1::int) \<le> 3 \<and> returns_horizon stub_model 3
   \<and> (\<exists>r w'. run_scenario stub_model ''opec_cut'' 3 world_zeroed = (Inr r, w')
          \<and> r_shocked_forecast r = r_baseline_forecast r)"
proof -
  have z: "\<forall>v \<in> snd ` set (sc_shocks opec_cut_zeroed). v = 0"
    by (simp add: opec_cut_zeroed_def modified_shocks_of_def)
  from zero_shocks_forecast_equals_baseline [OF world_zeroed_opec_cut z, of stub_model 3]
    stub_returns_horizon [of 3]
  show ?thesis
    using world_zeroed_opec_cut z
    by (auto simp: opec_cut_zeroed_def modified_shocks_of_def)
qed

text \<open>
  format_price_change_summary.  For a finite, nonzero baseline and a finite shocked value, the summary holds the
  four numbers \<open>baseline\<close>, \<open>shocked\<close>, \<open>shocked - baseline\<close> and
  \<open>(shocked - baseline) / baseline * 100\<close>, the last two computed before any rounding
  and every one of them then rounded to two decimal places; the arrow is the rising chart
  exactly when the unrounded difference is positive.
\<close>

theorem format_price_change_summary:
  assumes "b \<noteq> 0"
  shows "i_baseline (format_price_change (Fin b) (Fin s)) = Fin (round2 b)
       \<and> i_shocked (format_price_change (Fin b) (Fin s)) = Fin (round2 s)
       \<and> i_difference (format_price_change (Fin b) (Fin s)) = Fin (round2 (s - b))
       \<and> i_pct_change (format_price_change (Fin b) (Fin s))
           = Fin (round2 ((s - b) / b * 100))
       \<and> rounds_to_cents b (round2 b) \<and> rounds_to_cents s (round2 s)
       \<and> rounds_to_cents (s - b) (round2 (s - b))
       \<and> rounds_to_cents ((s - b) / b * 100) (round2 ((s - b) / b * 100))
       \<and> (i_arrow (format_price_change (Fin b) (Fin s)) = chart_up \<longleftrightarrow> 0 < s - b)
       \<and> (i_arrow (format_price_change (Fin b) (Fin s)) = chart_down \<longleftrightarrow> s - b \<le> 0)"
  using assms chart_distinct
  by (auto simp: format_price_change_def Let_def round2_rounds)

theorem format_price_change_summary_witness:
  "(75::real) \<noteq> 0
   \<and> i_difference (format_price_change (Fin 75) (Fin 71.25)) = Fin (- 3.75)
   \<and> i_pct_change (format_price_change (Fin 75) (Fin 71.25)) = Fin (- 5)
   \<and> i_arrow (format_price_change (Fin 75) (Fin 71.25)) = chart_down"
proof -
  have r1: "round2 (71.25 - 75) = - 3.75"
    by (simp add: round2_def rint_def)
  have r2: "round2 ((71.25 - 75) / 75 * 100) = - 5"
    by (simp add: round2_def rint_def)
  have nz: "(75::real) \<noteq> 0" by simp
  from format_price_change_summary [OF nz, of "71.25"] show ?thesis
    by (simp only: r1 r2) simp
qed




text \<open>
  nonpositive_horizon_is_processed, as the code has it.  The horizon is not validated.  With a horizon of zero or less,
  a key that is not in the catalog fails with the unknown-scenario \<open>ValueError\<close>; a key
  of the catalog is processed: the zero-shock matrix is built with no rows and the model
  is asked for a forecast over it.  The run then fails with the model's exception if the
  model raises, and with \<open>IndexError\<close> at \<open>iloc[-1]\<close> if the model returns an empty
  forecast.
\<close>

theorem nonpositive_horizon_is_processed:
  assumes "n \<le> 0"
  shows "(scenario_key \<notin> fst ` set (SCENARIOS w) \<longrightarrow>
            fst (run_scenario model scenario_key n w) =
              Inl (ValueError (unknown_scenario_msg scenario_key (map fst (SCENARIOS w)))))
       \<and> (scenario_key \<in> fst ` set (SCENARIOS w) \<longrightarrow>
            (\<exists>rest. trace (snd (run_scenario model scenario_key n w)) =
               trace w @ BuildExog zero_shocks n # GetForecast n [] # rest)
          \<and> (\<forall>e. model n [] = Inl e \<longrightarrow>
                 fst (run_scenario model scenario_key n w) = Inl e)
          \<and> (\<forall>fc. model n [] = Inr fc \<and> predicted_mean fc = [] \<longrightarrow>
                 fst (run_scenario model scenario_key n w) =
                   Inl (IndexError ''single positional indexer is out-of-bounds'')))"
proof (intro conjI impI allI)
  assume "scenario_key \<notin> fst ` set (SCENARIOS w)"
  then show "fst (run_scenario model scenario_key n w) =
      Inl (ValueError (unknown_scenario_msg scenario_key (map fst (SCENARIOS w))))"
    by (simp add: run_scenario_unknown)
next
  assume "scenario_key \<in> fst ` set (SCENARIOS w)"
  from known_key_invokes_model [OF this, of model n] assms
  show "\<exists>rest. trace (snd (run_scenario model scenario_key n w)) =
      trace w @ BuildExog zero_shocks n # GetForecast n [] # rest"
    by (simp add: exog_nonpositive)
next
  fix e
  assume k: "scenario_key \<in> fst ` set (SCENARIOS w)" and e: "model n [] = Inl e"
  obtain sc where "map_of (SCENARIOS w) scenario_key = Some sc"
    using known_key [OF k] by blast
  with e assms show "fst (run_scenario model scenario_key n w) = Inl e"
    by (simp add: run_scenario_baseline_fails exog_nonpositive)
next
  fix fc
  assume k: "scenario_key \<in> fst ` set (SCENARIOS w)"
    and fc: "model n [] = Inr fc \<and> predicted_mean fc = []"
  obtain sc where "map_of (SCENARIOS w) scenario_key = Some sc"
    using known_key [OF k] by blast
  with fc assms show "fst (run_scenario model scenario_key n w) =
      Inl (IndexError ''single positional indexer is out-of-bounds'')"
    by (simp add: run_scenario_forecasts exog_nonpositive iloc_empty)
qed

theorem nonpositive_horizon_is_processed_witness:
  "(0::int) \<le> 0 \<and> ''opec_cut'' \<in> fst ` set (SCENARIOS world_init)
   \<and> stub_model 0 [] = Inr \<lparr> predicted_mean = [], conf_int = [] \<rparr>
   \<and> fst (run_scenario stub_model ''opec_cut'' 0 world_init) =
       Inl (IndexError ''single positional indexer is out-of-bounds'')"
proof -
  have k: "''opec_cut'' \<in> fst ` set (SCENARIOS world_init)"
    by (simp add: world_init_def SCENARIOS_init_def)
  have m: "stub_model 0 [] = Inr \<lparr> predicted_mean = [], conf_int = [] \<rparr>"
    by (simp add: stub_model_def)
  have n: "(0::int) \<le> 0" by simp
  from nonpositive_horizon_is_processed [OF n, of "''opec_cut''" world_init stub_model] k m
  show ?thesis by simp
qed

text \<open>
  nonpositive_horizon_is_processed as stated fails: with horizon 0 an unknown key raises the unknown-scenario
  \<open>ValueError\<close>, and with horizon -1 the key \<open>opec_cut\<close> has both matrices built and
  the model asked twice before \<open>IndexError\<close> is raised.
\<close>

theorem nonpositive_horizon_counterexample:
  "fst (run_scenario stub_model ''made_up_key'' 0 world_init) =
     Inl (ValueError (unknown_scenario_msg ''made_up_key''
            [''opec_cut'', ''global_recession'', ''rate_hike'',
             ''geopolitical_tension'', ''demand_boom'']))
   \<and> run_scenario stub_model ''opec_cut'' (- 1) world_init =
       (Inl (IndexError ''single positional indexer is out-of-bounds''),
        world_init\<lparr> trace :=
          [BuildExog zero_shocks (- 1), GetForecast (- 1) [],
           BuildExog [(''inventory_pct'', - 0.05), (''vix_diff'', - 2.0),
                      (''dollar_return'', - 0.002), (''indpro_return'', 0.0),
                      (''fed_funds_diff'', 0.0)] (- 1),
           GetForecast (- 1) []] \<rparr>)"
proof -
  have k: "''made_up_key'' \<notin> fst ` set (SCENARIOS world_init)"
    by (simp add: world_init_def SCENARIOS_init_def)
  have sc: "map_of (SCENARIOS world_init) ''opec_cut'' = Some
       \<lparr> sc_name = ''OPEC Production Cut (10%)'',
         sc_description = ''OPEC announces a coordinated 10% production cut. ''
                        @ ''Supply tightens, inventories draw down, ''
                        @ ''risk sentiment improves.'',
         sc_shocks = [(''inventory_pct'', - 0.05),
                      (''vix_diff'', - 2.0),
                      (''dollar_return'', - 0.002),
                      (''indpro_return'', 0.0),
                      (''fed_funds_diff'', 0.0)] \<rparr>"
    by (simp add: world_init_def SCENARIOS_init_def)
  have m: "stub_model (- 1) [] = Inr \<lparr> predicted_mean = [], conf_int = [] \<rparr>"
    by (simp add: stub_model_def)
  have 1: "fst (run_scenario stub_model ''made_up_key'' 0 world_init) =
     Inl (ValueError (unknown_scenario_msg ''made_up_key''
            [''opec_cut'', ''global_recession'', ''rate_hike'',
             ''geopolitical_tension'', ''demand_boom'']))"
    using k by (simp add: run_scenario_unknown) (simp add: world_init_def SCENARIOS_init_def)
  have 2: "run_scenario stub_model ''opec_cut'' (- 1) world_init =
       (Inl (IndexError ''single positional indexer is out-of-bounds''),
        world_init\<lparr> trace :=
          [BuildExog zero_shocks (- 1), GetForecast (- 1) [],
           BuildExog [(''inventory_pct'', - 0.05), (''vix_diff'', - 2.0),
                      (''dollar_return'', - 0.002), (''indpro_return'', 0.0),
                      (''fed_funds_diff'', 0.0)] (- 1),
           GetForecast (- 1) []] \<rparr>)"
    using sc m
    by (simp add: run_scenario_forecasts exog_nonpositive iloc_empty after_shocked_def)
       (simp add: world_init_def)
  from 1 2 show ?thesis by blast
qed

text \<open>
  magnitude_scaling_is_pure.  Scaling returns a new mapping with the same drivers in the same order and every
  value multiplied by the modifier; a modifier of 1.0 gives back the mapping, a modifier
  of 0.0 gives all zeros.  The loop of test.py on the deep copy computes the same mapping
  as the comprehension of app.py.  Reading the stored shocks and scaling them leaves the
  world, the catalog included, as it was.
\<close>

theorem magnitude_scaling_is_pure:
  "map fst (modified_shocks_of shocks modifier) = map fst shocks
   \<and> map snd (modified_shocks_of shocks modifier) = map (\<lambda>v. v * modifier) (map snd shocks)
   \<and> modified_shocks_of shocks 1.0 = shocks
   \<and> map snd (modified_shocks_of shocks 0.0) = replicate (length shocks) 0.0
   \<and> (distinct (map fst shocks) \<longrightarrow>
         scale_in_place (map fst shocks) modifier shocks
           = Inr (modified_shocks_of shocks modifier))
   \<and> snd (andthen (get_shocks scenario_key)
             (\<lambda>stored. ret (modified_shocks_of stored modifier)) w) = w"
proof -
  have "snd (andthen (get_shocks scenario_key)
             (\<lambda>stored. ret (modified_shocks_of stored modifier)) w) = w"
    by (cases "dict_item (SCENARIOS w) scenario_key")
       (simp_all add: andthen_def get_shocks_eq ret_def)
  moreover have "modified_shocks_of shocks 1.0 = shocks"
    using modified_one [of shocks] by simp
  moreover have "map snd (modified_shocks_of shocks 0.0) = replicate (length shocks) 0.0"
    using modified_zero [of shocks] by simp
  ultimately show ?thesis
    using modified_keys [of shocks modifier] modified_values [of shocks modifier]
      scale_in_place_eq [of shocks modifier]
    by blast
qed

theorem magnitude_scaling_is_pure_witness:
  "distinct (map fst [(''inventory_pct'', - 0.05), (''vix_diff'', - 2.0 :: real)])
   \<and> scale_in_place [''inventory_pct'', ''vix_diff''] 2
         [(''inventory_pct'', - 0.05), (''vix_diff'', - 2.0)]
       = Inr [(''inventory_pct'', - 0.1), (''vix_diff'', - 4)]
   \<and> modified_shocks_of [(''inventory_pct'', - 0.05), (''vix_diff'', - 2.0)] 2
       = [(''inventory_pct'', - 0.1), (''vix_diff'', - 4)]"
proof -
  have m: "modified_shocks_of [(''inventory_pct'', - 0.05), (''vix_diff'', - 2.0)] 2
       = [(''inventory_pct'', - 0.1), (''vix_diff'', - 4)]"
    by (simp add: modified_shocks_of_def)
  have d: "distinct (map fst [(''inventory_pct'', - 0.05), (''vix_diff'', - 2.0 :: real)])"
    by simp
  from magnitude_scaling_is_pure [of "[(''inventory_pct'', - 0.05), (''vix_diff'', - 2.0)]" 2] d m
  show ?thesis by simp
qed

text \<open>
  completed_run_restores_catalog, as the code has it.  \<open>run_scenario\<close> itself never assigns to the catalog or to
  the snapshot.  Its two callers that scale the shocks do assign: they store the scaled
  mapping under the key while the scenario runs and store the original mapping back once
  \<open>run_scenario\<close> has returned.  So the snapshot is never changed, the catalog after a
  run that completes is the catalog before it, and a key that is not in the catalog fails
  before anything is assigned.
\<close>

theorem completed_run_restores_catalog:
  fixes finish :: "scenario_result \<Rightarrow> parsed_query \<Rightarrow> shocks \<Rightarrow> error + 'r"
  shows
  "SCENARIOS (snd (run_scenario model k n w)) = SCENARIOS w
   \<and> latest (snd (run_scenario model k n w)) = latest w
   \<and> filter is_write (trace (snd (run_scenario model k n w))) = filter is_write (trace w)
   \<and> latest (snd (run_simulation model po rw finish w)) = latest w
   \<and> (\<forall>response. fst (run_simulation model po rw finish w) = Inr response
         \<longrightarrow> SCENARIOS (snd (run_simulation model po rw finish w)) = SCENARIOS w)
   \<and> (\<forall>q. po = Inr q \<and> p_scenario_key q \<notin> fst ` set (SCENARIOS w)
         \<longrightarrow> snd (run_simulation model po rw finish w) = w)
   \<and> latest (snd (run_interactive_turn model parsed w)) = latest w
   \<and> (\<forall>result. fst (run_interactive_turn model parsed w) = Inr result
         \<longrightarrow> SCENARIOS (snd (run_interactive_turn model parsed w)) = SCENARIOS w)
   \<and> (p_scenario_key parsed \<notin> fst ` set (SCENARIOS w)
         \<longrightarrow> snd (run_interactive_turn model parsed w) = w)"
proof -
  have a: "\<forall>q. po = Inr q \<and> p_scenario_key q \<notin> fst ` set (SCENARIOS w)
         \<longrightarrow> snd (run_simulation model po rw finish w) = w"
    by (auto simp: run_simulation_snd run_simulation_try_unknown unknown_lookup)
  have b: "p_scenario_key parsed \<notin> fst ` set (SCENARIOS w)
         \<longrightarrow> snd (run_interactive_turn model parsed w) = w"
    by (auto simp: run_interactive_turn_unknown unknown_lookup)
  have c: "\<forall>response. fst (run_simulation model po rw finish w) = Inr response
         \<longrightarrow> SCENARIOS (snd (run_simulation model po rw finish w)) = SCENARIOS w"
    by (simp add: run_simulation_snd run_simulation_fst run_simulation_try_frame(2))
  have d: "latest (snd (run_simulation model po rw finish w)) = latest w"
    by (simp add: run_simulation_snd run_simulation_try_frame(1))
  from a b c d show ?thesis
    using run_scenario_frame [of model k n w] run_interactive_turn_frame [of model parsed w]
    by blast
qed

theorem completed_run_restores_catalog_witness:
  "(\<exists>response. fst (run_simulation stub_model (Inr query_extreme) 12 finish_stub world_init)
       = Inr response)
   \<and> SCENARIOS (snd (run_simulation stub_model (Inr query_extreme) 12 finish_stub world_init))
       = SCENARIOS world_init
   \<and> latest (snd (run_simulation stub_model (Inr query_extreme) 12 finish_stub world_init))
       = latest world_init"
proof -
  from extreme_inner obtain r where
      run: "run_scenario stub_model ''opec_cut'' 1
             (override ''opec_cut'' opec_cut_entry
                (modified_shocks_of (sc_shocks opec_cut_entry) 2) world_init)
          = (Inr r,
             after_shocked (modified_shocks_of (sc_shocks opec_cut_entry) 2) 1
               (override ''opec_cut'' opec_cut_entry
                  (modified_shocks_of (sc_shocks opec_cut_entry) 2) world_init))"
    by blast
  have ok: "fst (run_simulation stub_model (Inr query_extreme) 12 finish_stub world_init)
       = Inr r"
    unfolding extreme_run run by simp
  from completed_run_restores_catalog [of stub_model "''opec_cut''" 1 world_init "Inr query_extreme" 12 finish_stub
      query_extreme] ok
  show ?thesis by blast
qed

text \<open>
  completed_run_restores_catalog as stated fails: for the query \<open>query_extreme\<close> the run assigns the shocks of
  \<open>opec_cut\<close> twice, first the mapping scaled by 2 and then the original one, and the
  shocks that \<open>run_scenario\<close> read from the catalog in between are the scaled ones.
\<close>

theorem catalog_overwritten_counterexample:
  "filter is_write
     (trace (snd (run_simulation stub_model (Inr query_extreme) 12 finish_stub world_init)))
     = [SetShocks ''opec_cut''
          [(''inventory_pct'', - 0.1), (''vix_diff'', - 4), (''dollar_return'', - 0.004),
           (''indpro_return'', 0), (''fed_funds_diff'', 0)],
        SetShocks ''opec_cut''
          [(''inventory_pct'', - 0.05), (''vix_diff'', - 2), (''dollar_return'', - 0.002),
           (''indpro_return'', 0), (''fed_funds_diff'', 0)]]
   \<and> map_sum id r_shocks
         (fst (run_simulation stub_model (Inr query_extreme) 12 finish_stub world_init))
       = Inr [(''inventory_pct'', - 0.1), (''vix_diff'', - 4), (''dollar_return'', - 0.004),
              (''indpro_return'', 0), (''fed_funds_diff'', 0)]"
proof -
  from extreme_inner obtain r where
      run: "run_scenario stub_model ''opec_cut'' 1
             (override ''opec_cut'' opec_cut_entry
                (modified_shocks_of (sc_shocks opec_cut_entry) 2) world_init)
          = (Inr r,
             after_shocked (modified_shocks_of (sc_shocks opec_cut_entry) 2) 1
               (override ''opec_cut'' opec_cut_entry
                  (modified_shocks_of (sc_shocks opec_cut_entry) 2) world_init))"
    and r: "r_shocks r = modified_shocks_of (sc_shocks opec_cut_entry) 2"
    by blast
  have orig: "sc_shocks opec_cut_entry =
      [(''inventory_pct'', - 0.05), (''vix_diff'', - 2), (''dollar_return'', - 0.002),
       (''indpro_return'', 0), (''fed_funds_diff'', 0)]"
    by (simp add: opec_cut_entry_def)
  show ?thesis
    unfolding extreme_run run
    by (simp add: r scaled_extreme override_def after_shocked_def)
       (simp add: orig world_init_def)
qed

end
